theory Spec2Isabelle
  imports Main
begin

section \<open>huskyTech2: the bootstrap in \<open>main.cpp\<close>\<close>

text \<open>
  The program initialises GLFW, opens one window, initialises GLEW and runs a frame loop
  that polls for an exit request and calls an empty render hook. Everything the program
  does beyond computing is a call into GLFW, GLEW or the C library. The model therefore
  keeps the program's global variables in a record, appends every external call to a
  trace in program order, and takes the answers of the outside world from an environment.
\<close>

subsection \<open>Values of the libraries\<close>

text \<open>
  \<open>GLFWwindow*\<close> is a pointer; the model keeps the address and \<open>NULL\<close> is address 0.
  The constants below have the values of \<open>glfw3.h\<close>, \<open>glew.h\<close> and \<open>gl.h\<close>.
\<close>

type_synonym GLFWwindow_ptr = nat

definition NULL :: GLFWwindow_ptr where
  "NULL = 0"

definition GLFW_PRESS :: int where
  "GLFW_PRESS = 1"

definition GLFW_KEY_ESCAPE :: int where
  "GLFW_KEY_ESCAPE = 256"

definition GLFW_CONTEXT_VERSION_MAJOR :: int where
  "GLFW_CONTEXT_VERSION_MAJOR = 0x00022002"

definition GLFW_CONTEXT_VERSION_MINOR :: int where
  "GLFW_CONTEXT_VERSION_MINOR = 0x00022003"

definition GLFW_OPENGL_FORWARD_COMPAT :: int where
  "GLFW_OPENGL_FORWARD_COMPAT = 0x00022006"

definition GLFW_OPENGL_PROFILE :: int where
  "GLFW_OPENGL_PROFILE = 0x00022008"

definition GLFW_OPENGL_CORE_PROFILE :: int where
  "GLFW_OPENGL_CORE_PROFILE = 0x00032001"

definition GLFW_STICKY_KEYS :: int where
  "GLFW_STICKY_KEYS = 0x00033002"

definition GL_TRUE :: int where
  "GL_TRUE = 1"

definition GLEW_OK :: nat where
  "GLEW_OK = 0"

subsection \<open>The trace of effects\<close>

text \<open>
  One constructor for each library function the program calls, with the arguments the
  call is made with (the two \<open>NULL\<close> arguments of \<open>glfwCreateWindow\<close> are constant and
  left out). \<open>Stderr\<close> is an \<open>fprintf(stderr, ...)\<close>, \<open>Draw\<close> an invocation of the
  render hook, and \<open>Alive_false\<close> the assignment \<open>alive = false\<close>, recorded so that
  properties about what happens after the flag is cleared can be read off the trace.
\<close>

datatype event =
    Stderr string
  | GlfwInit
  | GlfwWindowHint int int
  | GlfwCreateWindow int int string
  | GlfwTerminate
  | GlfwMakeContextCurrent GLFWwindow_ptr
  | GlewInit
  | GlfwSetInputMode GLFWwindow_ptr int int
  | GlfwGetKey GLFWwindow_ptr int
  | GlfwWindowShouldClose GLFWwindow_ptr
  | GlfwDestroyWindow GLFWwindow_ptr
  | Draw
  | Alive_false

subsection \<open>The outside world\<close>

text \<open>
  What the libraries answer. \<open>glfwInit\<close>, \<open>glfwCreateWindow\<close> and \<open>glewInit\<close> are
  called at most once in a run. \<open>glfwGetKey\<close> is called once in every call of
  \<open>input_update\<close>, and \<open>glfwWindowShouldClose\<close> at most once; their answers are given
  for each call of \<open>input_update\<close>, numbered from 1 (the number of the loop iteration).
\<close>

record env =
  glfwInit_ret :: int
  glfwCreateWindow_ret :: GLFWwindow_ptr
  glewInit_ret :: nat
  glfwGetKey_ret :: "nat \<Rightarrow> int"
  glfwWindowShouldClose_ret :: "nat \<Rightarrow> int"

subsection \<open>The program state\<close>

text \<open>
  \<open>window\<close> and \<open>alive\<close> are the globals of \<open>globals.h\<close>, \<open>glewExperimental\<close> is
  GLEW's. \<open>polls\<close> counts the calls of \<open>input_update\<close> made so far and \<open>events\<close> is
  the trace; neither is read by the program.
\<close>

record state =
  window :: GLFWwindow_ptr
  alive :: bool
  glewExperimental :: bool
  polls :: nat
  events :: "event list"

text \<open>
  Modelled from the spec: \<open>globals.h\<close>, which declares \<open>window\<close> and \<open>alive\<close> and
  gives them their initial values, is not among the sources. The spec's data model says
  that the alive flag is ``initialized true'' and that the window handle is ``created
  once at startup''. The initial value of the flag is kept as a parameter; the handle
  starts as \<open>NULL\<close> and is assigned before it is first read.
\<close>

definition start :: "bool \<Rightarrow> state" where
  "start a = \<lparr>window = NULL, alive = a, glewExperimental = False, polls = 0, events = []\<rparr>"

definition emit :: "event \<Rightarrow> state \<Rightarrow> state" where
  "emit e s = s\<lparr>events := events s @ [e]\<rparr>"

subsection \<open>The functions of \<open>main.cpp\<close>\<close>

text \<open>
  \<open>input_update\<close>: the condition is
  \<open>glfwGetKey(window, GLFW_KEY_ESCAPE) == GLFW_PRESS || glfwWindowShouldClose(window) != 0\<close>;
  \<open>||\<close> does not evaluate its right operand when the left one holds.
\<close>

definition input_update :: "env \<Rightarrow> state \<Rightarrow> state" where
  "input_update env s =
     (let n = Suc (polls s);
          s1 = emit (GlfwGetKey (window s) GLFW_KEY_ESCAPE) (s\<lparr>polls := n\<rparr>)
      in if glfwGetKey_ret env n = GLFW_PRESS
         then emit Alive_false (s1\<lparr>alive := False\<rparr>)
         else let s2 = emit (GlfwWindowShouldClose (window s1)) s1
              in if glfwWindowShouldClose_ret env n \<noteq> 0
                 then emit Alive_false (s2\<lparr>alive := False\<rparr>)
                 else s2)"

definition draw :: "state \<Rightarrow> state" where
  "draw s = emit Draw s"

definition explode :: "state \<Rightarrow> state" where
  "explode s = emit (GlfwDestroyWindow (window s)) s"

text \<open>
  The \<open>while (alive)\<close> loop of \<open>main\<close>. It need not terminate: \<open>None\<close> is a loop that
  runs forever, \<open>Some s\<close> a loop left in state \<open>s\<close> (by \<open>break\<close> after \<open>explode\<close>, or
  because \<open>alive\<close> is false when the condition is tested).
\<close>

partial_function (option) frame_loop :: "env \<Rightarrow> state \<Rightarrow> state option" where
  "frame_loop env s =
     (if alive s
      then (let s1 = input_update env s
            in if alive s1 then frame_loop env (draw s1) else Some (explode s1))
      else Some s)"

declare frame_loop.simps [code]

text \<open>
  \<open>main\<close> returns the exit status together with the final state; \<open>None\<close> when it does
  not return. Control that reaches the end of \<open>main\<close> returns 0.
\<close>

definition main :: "env \<Rightarrow> bool \<Rightarrow> (int \<times> state) option" where
  "main env a =
     (let s = (start a)\<lparr>glewExperimental := True\<rparr>;
          s = emit GlfwInit s
      in if glfwInit_ret env = 0
         then Some (- 1, emit (Stderr (''FAILED TO INITIALIZE GLFW!'' @ [CHR 0x0A])) s)
         else
           let s = emit (GlfwWindowHint GLFW_CONTEXT_VERSION_MAJOR 3) s;
               s = emit (GlfwWindowHint GLFW_CONTEXT_VERSION_MINOR 3) s;
               s = emit (GlfwWindowHint GLFW_OPENGL_FORWARD_COMPAT GL_TRUE) s;
               s = emit (GlfwWindowHint GLFW_OPENGL_PROFILE GLFW_OPENGL_CORE_PROFILE) s;
               s = (emit (GlfwCreateWindow 1280 720 ''huskyTech2'') s)
                     \<lparr>window := glfwCreateWindow_ret env\<rparr>
           in if window s = NULL
              then Some (- 1,
                     emit GlfwTerminate
                       (emit (Stderr (''FAILED TO OPEN GLFW WINDOW!'' @ [CHR 0x0A])) s))
              else
                let s = emit (GlfwMakeContextCurrent (window s)) s;
                    s = s\<lparr>glewExperimental := True\<rparr>;
                    s = emit GlewInit s
                in if glewInit_ret env \<noteq> GLEW_OK
                   then Some (- 1,
                          emit (Stderr (''FAILED TO INITIALIZE GLEW!'' @ [CHR 0x0A])) s)
                   else
                     let s = emit (GlfwSetInputMode (window s) GLFW_STICKY_KEYS GL_TRUE) s
                     in (case frame_loop env s of
                           None \<Rightarrow> None
                         | Some s' \<Rightarrow> Some (0, s')))"

subsection \<open>Notions used in the statements\<close>

text \<open>
  The exit condition as \<open>input_update\<close> tests it at its \<open>n\<close>-th call: the Escape key
  is reported pressed, or the window's close flag is set.
\<close>

definition exit_requested :: "env \<Rightarrow> nat \<Rightarrow> bool" where
  "exit_requested env n =
     (glfwGetKey_ret env n = GLFW_PRESS \<or> glfwWindowShouldClose_ret env n \<noteq> 0)"

text \<open>The library calls of the \<open>n\<close>-th call of \<open>input_update\<close> on window \<open>w\<close>.\<close>

definition poll_events :: "env \<Rightarrow> GLFWwindow_ptr \<Rightarrow> nat \<Rightarrow> event list" where
  "poll_events env w n =
     (if glfwGetKey_ret env n = GLFW_PRESS
      then [GlfwGetKey w GLFW_KEY_ESCAPE]
      else [GlfwGetKey w GLFW_KEY_ESCAPE, GlfwWindowShouldClose w])"

text \<open>The trace of a loop iteration that finds no exit request and renders.\<close>

definition frame_events :: "GLFWwindow_ptr \<Rightarrow> event list" where
  "frame_events w = [GlfwGetKey w GLFW_KEY_ESCAPE, GlfwWindowShouldClose w, Draw]"

text \<open>The trace of \<open>main\<close> from its start to the loop, when nothing fails.\<close>

definition setup_events :: "GLFWwindow_ptr \<Rightarrow> event list" where
  "setup_events w =
     [GlfwInit,
      GlfwWindowHint GLFW_CONTEXT_VERSION_MAJOR 3,
      GlfwWindowHint GLFW_CONTEXT_VERSION_MINOR 3,
      GlfwWindowHint GLFW_OPENGL_FORWARD_COMPAT GL_TRUE,
      GlfwWindowHint GLFW_OPENGL_PROFILE GLFW_OPENGL_CORE_PROFILE,
      GlfwCreateWindow 1280 720 ''huskyTech2'',
      GlfwMakeContextCurrent w,
      GlewInit,
      GlfwSetInputMode w GLFW_STICKY_KEYS GL_TRUE]"

text \<open>The state in which \<open>main\<close> reaches the loop.\<close>

definition running :: "GLFWwindow_ptr \<Rightarrow> bool \<Rightarrow> state" where
  "running w a =
     \<lparr>window = w, alive = a, glewExperimental = True, polls = 0, events = setup_events w\<rparr>"

text \<open>The trace of a loop that is left in its \<open>n\<close>-th iteration.\<close>

definition exit_events :: "env \<Rightarrow> GLFWwindow_ptr \<Rightarrow> nat \<Rightarrow> event list" where
  "exit_events env w n =
     concat (replicate (n - 1) (frame_events w)) @ poll_events env w n @
       [Alive_false, GlfwDestroyWindow w]"

text \<open>The events of a loop iteration: a poll of the input, or the render hook.\<close>

fun is_frame_event :: "event \<Rightarrow> bool" where
  "is_frame_event (GlfwGetKey w k) = True"
| "is_frame_event (GlfwWindowShouldClose w) = True"
| "is_frame_event Draw = True"
| "is_frame_event _ = False"

fun is_create_window :: "event \<Rightarrow> bool" where
  "is_create_window (GlfwCreateWindow w h t) = True"
| "is_create_window _ = False"

fun is_destroy_window :: "event \<Rightarrow> bool" where
  "is_destroy_window (GlfwDestroyWindow w) = True"
| "is_destroy_window _ = False"

text \<open>What a trace holds after the first assignment \<open>alive = false\<close>.\<close>

definition after_clear :: "event list \<Rightarrow> event list" where
  "after_clear es = drop 1 (dropWhile (\<lambda>e. e \<noteq> Alive_false) es)"

text \<open>The trace of a run that returned.\<close>

definition trace_of :: "(int \<times> state) option \<Rightarrow> event list option" where
  "trace_of r = map_option (\<lambda>(rc, s). events s) r"

definition status_of :: "(int \<times> state) option \<Rightarrow> int option" where
  "status_of r = map_option fst r"

text \<open>
  A trace in which \<open>glfwTerminate\<close> is called exactly once, and a window has been
  destroyed before that call.
\<close>

definition shutdown_once_after_destroy :: "event list \<Rightarrow> bool" where
  "shutdown_once_after_destroy es =
     (count_list es GlfwTerminate = 1 \<and>
      list_ex is_destroy_window (takeWhile (\<lambda>e. e \<noteq> GlfwTerminate) es))"

subsection \<open>Some environments\<close>

definition quiet :: "nat \<Rightarrow> int" where
  "quiet n = 0"

definition at_call :: "nat \<Rightarrow> nat \<Rightarrow> int" where
  "at_call k n = (if n = k then 1 else 0)"

text \<open>Everything succeeds, and Escape is reported pressed in iteration \<open>k\<close> only.\<close>

definition env_escape :: "nat \<Rightarrow> env" where
  "env_escape k =
     \<lparr>glfwInit_ret = 1, glfwCreateWindow_ret = 4096, glewInit_ret = 0,
      glfwGetKey_ret = at_call k, glfwWindowShouldClose_ret = quiet\<rparr>"

text \<open>Everything succeeds, and the close flag is set in iteration \<open>k\<close> only.\<close>

definition env_close :: "nat \<Rightarrow> env" where
  "env_close k =
     \<lparr>glfwInit_ret = 1, glfwCreateWindow_ret = 4096, glewInit_ret = 0,
      glfwGetKey_ret = quiet, glfwWindowShouldClose_ret = at_call k\<rparr>"

text \<open>Everything succeeds and the user never asks to leave.\<close>

definition env_idle :: env where
  "env_idle =
     \<lparr>glfwInit_ret = 1, glfwCreateWindow_ret = 4096, glewInit_ret = 0,
      glfwGetKey_ret = quiet, glfwWindowShouldClose_ret = quiet\<rparr>"

text \<open>\<open>glfwInit\<close> fails.\<close>

definition env_no_glfw :: env where
  "env_no_glfw =
     \<lparr>glfwInit_ret = 0, glfwCreateWindow_ret = NULL, glewInit_ret = 0,
      glfwGetKey_ret = quiet, glfwWindowShouldClose_ret = quiet\<rparr>"

text \<open>\<open>glfwCreateWindow\<close> returns \<open>NULL\<close>.\<close>

definition env_no_window :: env where
  "env_no_window =
     \<lparr>glfwInit_ret = 1, glfwCreateWindow_ret = NULL, glewInit_ret = 0,
      glfwGetKey_ret = quiet, glfwWindowShouldClose_ret = quiet\<rparr>"

text \<open>\<open>glewInit\<close> returns an error code.\<close>

definition env_no_glew :: env where
  "env_no_glew =
     \<lparr>glfwInit_ret = 1, glfwCreateWindow_ret = 4096, glewInit_ret = 1,
      glfwGetKey_ret = quiet, glfwWindowShouldClose_ret = quiet\<rparr>"

section \<open>Properties\<close>

subsection \<open>\<open>input_update\<close>\<close>

lemma alive_input_update:
  "alive (input_update env s) = (alive s \<and> \<not> exit_requested env (Suc (polls s)))"
  by (simp add: input_update_def emit_def exit_requested_def Let_def)

lemma polls_input_update: "polls (input_update env s) = Suc (polls s)"
  by (simp add: input_update_def emit_def Let_def)

lemma window_input_update: "window (input_update env s) = window s"
  by (simp add: input_update_def emit_def Let_def)

lemma glewExperimental_input_update:
  "glewExperimental (input_update env s) = glewExperimental s"
  by (simp add: input_update_def emit_def Let_def)

lemma events_input_update:
  "events (input_update env s) =
     events s @ poll_events env (window s) (Suc (polls s)) @
       (if exit_requested env (Suc (polls s)) then [Alive_false] else [])"
  by (simp add: input_update_def emit_def exit_requested_def poll_events_def Let_def)

lemma poll_events_continue:
  "\<not> exit_requested env n \<Longrightarrow>
     poll_events env w n = [GlfwGetKey w GLFW_KEY_ESCAPE, GlfwWindowShouldClose w]"
  by (simp add: exit_requested_def poll_events_def)

subsection \<open>The frame loop\<close>

lemma frame_loop_dead: "\<not> alive s \<Longrightarrow> frame_loop env s = Some s"
  by (subst frame_loop.simps) simp

lemma frame_loop_exit:
  "alive s \<Longrightarrow> exit_requested env (Suc (polls s)) \<Longrightarrow>
     frame_loop env s = Some (explode (input_update env s))"
  by (subst frame_loop.simps) (simp add: alive_input_update)

lemma frame_loop_continue:
  "alive s \<Longrightarrow> \<not> exit_requested env (Suc (polls s)) \<Longrightarrow>
     frame_loop env s = frame_loop env (draw (input_update env s))"
  by (subst frame_loop.simps) (simp add: alive_input_update)

lemma frame_loop_first_exit:
  "alive s \<Longrightarrow> exit_requested env (polls s + Suc d) \<Longrightarrow>
   (\<forall>i. polls s < i \<and> i < polls s + Suc d \<longrightarrow> \<not> exit_requested env i) \<Longrightarrow>
   frame_loop env s =
     Some (s\<lparr>alive := False, polls := polls s + Suc d,
             events := events s @ concat (replicate d (frame_events (window s))) @
               poll_events env (window s) (polls s + Suc d) @
               [Alive_false, GlfwDestroyWindow (window s)]\<rparr>)"
proof (induction d arbitrary: s)
  case 0
  then have "frame_loop env s = Some (explode (input_update env s))"
    by (simp add: frame_loop_exit)
  moreover have "explode (input_update env s) =
      s\<lparr>alive := False, polls := Suc (polls s),
        events := events s @ poll_events env (window s) (Suc (polls s)) @
          [Alive_false, GlfwDestroyWindow (window s)]\<rparr>"
    using 0
    by (auto simp: explode_def input_update_def emit_def exit_requested_def
        poll_events_def Let_def)
  ultimately show ?case by simp
next
  case (Suc d)
  let ?t = "draw (input_update env s)"
  have no: "\<not> exit_requested env (Suc (polls s))"
    using Suc.prems(3) by simp
  have t: "?t = s\<lparr>polls := Suc (polls s),
      events := events s @ frame_events (window s)\<rparr>"
    using no
    by (simp add: draw_def input_update_def emit_def exit_requested_def
        frame_events_def Let_def)
  have "frame_loop env s = frame_loop env ?t"
    using Suc.prems(1) no by (rule frame_loop_continue)
  also have "frame_loop env ?t =
      Some (?t\<lparr>alive := False, polls := polls ?t + Suc d,
        events := events ?t @ concat (replicate d (frame_events (window ?t))) @
          poll_events env (window ?t) (polls ?t + Suc d) @
          [Alive_false, GlfwDestroyWindow (window ?t)]\<rparr>)"
  proof (rule Suc.IH)
    show "alive ?t" using Suc.prems(1) by (simp add: t)
    show "exit_requested env (polls ?t + Suc d)"
      using Suc.prems(2) by (simp add: t)
    show "\<forall>i. polls ?t < i \<and> i < polls ?t + Suc d \<longrightarrow> \<not> exit_requested env i"
      using Suc.prems(3) by (simp add: t)
  qed
  also have "\<dots> = Some (s\<lparr>alive := False, polls := polls s + Suc (Suc d),
             events := events s @ concat (replicate (Suc d) (frame_events (window s))) @
               poll_events env (window s) (polls s + Suc (Suc d)) @
               [Alive_false, GlfwDestroyWindow (window s)]\<rparr>)"
    by (simp add: t)
  finally show ?case .
qed

lemma frame_loop_Some_exit:
  assumes ret: "frame_loop env s = Some s'" and "alive s"
  shows "\<exists>n>polls s. exit_requested env n"
proof -
  have "alive s \<longrightarrow> (\<exists>n>polls s. exit_requested env n)"
  proof (rule frame_loop.raw_induct
      [where P = "\<lambda>env s s'. alive s \<longrightarrow> (\<exists>n>polls s. exit_requested env n)", OF _ ret])
    fix f env s y
    assume IH: "\<And>e t r. f e t = Some r \<Longrightarrow>
        alive t \<longrightarrow> (\<exists>n>polls t. exit_requested e n)"
      and body: "(if alive s
          then (let s1 = input_update env s
                in if alive s1 then f env (draw s1) else Some (explode s1))
          else Some s) = Some y"
    show "alive s \<longrightarrow> (\<exists>n>polls s. exit_requested env n)"
    proof
      assume al: "alive s"
      show "\<exists>n>polls s. exit_requested env n"
      proof (cases "exit_requested env (Suc (polls s))")
        case True
        then show ?thesis by blast
      next
        case False
        with al body have "f env (draw (input_update env s)) = Some y"
          by (simp add: alive_input_update)
        moreover have "alive (draw (input_update env s))"
          using False al by (simp add: draw_def emit_def alive_input_update)
        ultimately have "\<exists>n>polls (draw (input_update env s)). exit_requested env n"
          using IH by blast
        then obtain n where n: "polls (draw (input_update env s)) < n" "exit_requested env n"
          by (elim exE conjE)
        from n(1) have "polls s < n"
          by (simp add: draw_def emit_def polls_input_update)
        with n(2) show ?thesis
          by (intro exI [of _ n] conjI)
      qed
    qed
  qed
  with \<open>alive s\<close> show ?thesis by simp
qed

subsection \<open>The paths through \<open>main\<close>\<close>

lemma main_glfwInit_failed:
  "glfwInit_ret env = 0 \<Longrightarrow>
     main env a =
       Some (- 1, \<lparr>window = NULL, alive = a, glewExperimental = True, polls = 0,
         events = [GlfwInit, Stderr (''FAILED TO INITIALIZE GLFW!'' @ [CHR 0x0A])]\<rparr>)"
  by (simp add: main_def start_def emit_def)

lemma main_window_failed:
  "glfwInit_ret env \<noteq> 0 \<Longrightarrow> glfwCreateWindow_ret env = NULL \<Longrightarrow>
     main env a =
       Some (- 1, \<lparr>window = NULL, alive = a, glewExperimental = True, polls = 0,
         events = [GlfwInit,
           GlfwWindowHint GLFW_CONTEXT_VERSION_MAJOR 3,
           GlfwWindowHint GLFW_CONTEXT_VERSION_MINOR 3,
           GlfwWindowHint GLFW_OPENGL_FORWARD_COMPAT GL_TRUE,
           GlfwWindowHint GLFW_OPENGL_PROFILE GLFW_OPENGL_CORE_PROFILE,
           GlfwCreateWindow 1280 720 ''huskyTech2'',
           Stderr (''FAILED TO OPEN GLFW WINDOW!'' @ [CHR 0x0A]),
           GlfwTerminate]\<rparr>)"
  by (simp add: main_def start_def emit_def)

lemma main_glewInit_failed:
  "glfwInit_ret env \<noteq> 0 \<Longrightarrow> glfwCreateWindow_ret env \<noteq> NULL \<Longrightarrow>
   glewInit_ret env \<noteq> GLEW_OK \<Longrightarrow>
     main env a =
       Some (- 1, \<lparr>window = glfwCreateWindow_ret env, alive = a, glewExperimental = True,
         polls = 0,
         events = [GlfwInit,
           GlfwWindowHint GLFW_CONTEXT_VERSION_MAJOR 3,
           GlfwWindowHint GLFW_CONTEXT_VERSION_MINOR 3,
           GlfwWindowHint GLFW_OPENGL_FORWARD_COMPAT GL_TRUE,
           GlfwWindowHint GLFW_OPENGL_PROFILE GLFW_OPENGL_CORE_PROFILE,
           GlfwCreateWindow 1280 720 ''huskyTech2'',
           GlfwMakeContextCurrent (glfwCreateWindow_ret env),
           GlewInit,
           Stderr (''FAILED TO INITIALIZE GLEW!'' @ [CHR 0x0A])]\<rparr>)"
  by (simp add: main_def start_def emit_def)

lemma main_running:
  "glfwInit_ret env \<noteq> 0 \<Longrightarrow> glfwCreateWindow_ret env \<noteq> NULL \<Longrightarrow>
   glewInit_ret env = GLEW_OK \<Longrightarrow>
     main env a =
       (case frame_loop env (running (glfwCreateWindow_ret env) a) of
          None \<Rightarrow> None
        | Some s' \<Rightarrow> Some (0, s'))"
  by (simp add: main_def start_def emit_def running_def setup_events_def)

subsection \<open>Runs that reach the loop\<close>

lemma first_exit_ex:
  assumes "p < n" and "exit_requested env n"
  shows "\<exists>m>p. exit_requested env m \<and> (\<forall>i. p < i \<and> i < m \<longrightarrow> \<not> exit_requested env i)"
proof -
  from assms have "\<exists>k. p < k \<and> exit_requested env k"
    by (intro exI [of _ n] conjI)
  then have "\<exists>m. (p < m \<and> exit_requested env m) \<and>
      (\<forall>i<m. \<not> (p < i \<and> exit_requested env i))"
    by (rule iffD1 [OF exists_least_iff])
  then obtain m where "p < m" "exit_requested env m"
    and least: "\<forall>i<m. \<not> (p < i \<and> exit_requested env i)"
    by (elim exE conjE)
  from least have "\<forall>i. p < i \<and> i < m \<longrightarrow> \<not> exit_requested env i"
    by simp
  with \<open>p < m\<close> \<open>exit_requested env m\<close> show ?thesis
    by (intro exI [of _ m] conjI)
qed

lemma frame_loop_running_exit:
  assumes "1 \<le> n" and "exit_requested env n"
    and "\<forall>i. 1 \<le> i \<and> i < n \<longrightarrow> \<not> exit_requested env i"
  shows "frame_loop env (running w True) =
     Some \<lparr>window = w, alive = False, glewExperimental = True, polls = n,
       events = setup_events w @ exit_events env w n\<rparr>"
proof -
  from assms(1) obtain d where n: "n = Suc d"
    by (cases n) simp_all
  have "frame_loop env (running w True) =
     Some ((running w True)\<lparr>alive := False, polls := polls (running w True) + Suc d,
             events := events (running w True) @
               concat (replicate d (frame_events (window (running w True)))) @
               poll_events env (window (running w True)) (polls (running w True) + Suc d) @
               [Alive_false, GlfwDestroyWindow (window (running w True))]\<rparr>)"
  proof (rule frame_loop_first_exit)
    show "alive (running w True)" by (simp add: running_def)
    show "exit_requested env (polls (running w True) + Suc d)"
      using assms(2) by (simp add: running_def n)
    show "\<forall>i. polls (running w True) < i \<and> i < polls (running w True) + Suc d \<longrightarrow>
        \<not> exit_requested env i"
      using assms(3) by (simp add: running_def n Suc_le_eq)
  qed
  then show ?thesis
    by (simp add: running_def exit_events_def n)
qed

lemma frame_loop_running_Some:
  assumes "frame_loop env (running w True) = Some s"
  shows "\<exists>n\<ge>1. exit_requested env n \<and> (\<forall>i. 1 \<le> i \<and> i < n \<longrightarrow> \<not> exit_requested env i) \<and>
     s = \<lparr>window = w, alive = False, glewExperimental = True, polls = n,
       events = setup_events w @ exit_events env w n\<rparr>"
proof -
  have "\<exists>n>polls (running w True). exit_requested env n"
    using assms by (rule frame_loop_Some_exit) (simp add: running_def)
  then obtain k where "0 < k" "exit_requested env k"
    by (auto simp: running_def)
  from first_exit_ex [OF this] obtain n where
    n: "0 < n" "exit_requested env n" "\<forall>i. 0 < i \<and> i < n \<longrightarrow> \<not> exit_requested env i"
    by blast
  then have "frame_loop env (running w True) =
     Some \<lparr>window = w, alive = False, glewExperimental = True, polls = n,
       events = setup_events w @ exit_events env w n\<rparr>"
    by (intro frame_loop_running_exit) (simp_all add: Suc_le_eq)
  with assms n show ?thesis
    by (intro exI [of _ n]) (simp add: Suc_le_eq)
qed

lemma frame_loop_running_None:
  assumes "\<forall>n. 1 \<le> n \<longrightarrow> \<not> exit_requested env n"
  shows "frame_loop env (running w True) = None"
proof (cases "frame_loop env (running w True)")
  case None
  then show ?thesis .
next
  case (Some s)
  from frame_loop_running_Some [OF this] assms show ?thesis
    by blast
qed

lemma main_exit:
  assumes "glfwInit_ret env \<noteq> 0" and "glfwCreateWindow_ret env \<noteq> NULL"
    and "glewInit_ret env = GLEW_OK"
    and "1 \<le> n" and "exit_requested env n"
    and "\<forall>i. 1 \<le> i \<and> i < n \<longrightarrow> \<not> exit_requested env i"
  shows "main env True =
     Some (0, \<lparr>window = glfwCreateWindow_ret env, alive = False, glewExperimental = True,
       polls = n,
       events = setup_events (glfwCreateWindow_ret env) @
         exit_events env (glfwCreateWindow_ret env) n\<rparr>)"
  using assms by (simp add: main_running frame_loop_running_exit)

lemma main_not_alive:
  assumes "glfwInit_ret env \<noteq> 0" and "glfwCreateWindow_ret env \<noteq> NULL"
    and "glewInit_ret env = GLEW_OK"
  shows "main env False = Some (0, running (glfwCreateWindow_ret env) False)"
  using assms by (simp add: main_running frame_loop_dead running_def)

lemma main_idle:
  assumes "glfwInit_ret env \<noteq> 0" and "glfwCreateWindow_ret env \<noteq> NULL"
    and "glewInit_ret env = GLEW_OK"
    and "\<forall>n. 1 \<le> n \<longrightarrow> \<not> exit_requested env n"
  shows "main env True = None"
  using assms by (simp add: main_running frame_loop_running_None)

lemma main_running_Some:
  assumes "glfwInit_ret env \<noteq> 0" and "glfwCreateWindow_ret env \<noteq> NULL"
    and "glewInit_ret env = GLEW_OK"
    and "main env True = Some (rc, s)"
  shows "\<exists>n\<ge>1. exit_requested env n \<and> (\<forall>i. 1 \<le> i \<and> i < n \<longrightarrow> \<not> exit_requested env i) \<and>
     rc = 0 \<and>
     s = \<lparr>window = glfwCreateWindow_ret env, alive = False, glewExperimental = True,
       polls = n,
       events = setup_events (glfwCreateWindow_ret env) @
         exit_events env (glfwCreateWindow_ret env) n\<rparr>"
proof -
  from assms obtain s' where
    "frame_loop env (running (glfwCreateWindow_ret env) True) = Some s'" "rc = 0" "s = s'"
    by (auto simp: main_running split: option.splits)
  with frame_loop_running_Some [of env "glfwCreateWindow_ret env" s'] show ?thesis
    by simp
qed

lemma frame_loop_returns_iff:
  assumes "alive s"
  shows "(\<exists>s'. frame_loop env s = Some s') = (\<exists>n>polls s. exit_requested env n)"
proof
  assume "\<exists>s'. frame_loop env s = Some s'"
  then obtain s' where "frame_loop env s = Some s'" ..
  then show "\<exists>n>polls s. exit_requested env n"
    using assms by (rule frame_loop_Some_exit)
next
  assume "\<exists>n>polls s. exit_requested env n"
  then obtain k where "polls s < k" "exit_requested env k"
    by (elim exE conjE)
  from first_exit_ex [OF this] obtain m where
    m: "polls s < m" "exit_requested env m"
      "\<forall>i. polls s < i \<and> i < m \<longrightarrow> \<not> exit_requested env i"
    by (elim exE conjE)
  define d where "d = m - Suc (polls s)"
  with m(1) have md: "m = polls s + Suc d"
    by simp
  from assms m(2,3) show "\<exists>s'. frame_loop env s = Some s'"
    unfolding md by (simp add: frame_loop_first_exit)
qed

lemma main_True_cleared:
  assumes "main env True = Some (rc, s)" and "\<not> alive s"
  shows "1 \<le> polls s \<and> exit_requested env (polls s)"
proof -
  have ok: "glfwInit_ret env \<noteq> 0 \<and> glfwCreateWindow_ret env \<noteq> NULL \<and>
      glewInit_ret env = GLEW_OK"
  proof (rule ccontr)
    assume "\<not> ?thesis"
    then consider "glfwInit_ret env = 0"
      | "glfwInit_ret env \<noteq> 0" "glfwCreateWindow_ret env = NULL"
      | "glfwInit_ret env \<noteq> 0" "glfwCreateWindow_ret env \<noteq> NULL"
        "glewInit_ret env \<noteq> GLEW_OK"
      by blast
    then show False
    proof cases
      case 1
      with assms show False by (auto simp: main_glfwInit_failed)
    next
      case 2
      with assms show False by (auto simp: main_window_failed)
    next
      case 3
      with assms show False by (auto simp: main_glewInit_failed)
    qed
  qed
  with assms(1) main_running_Some [of env rc s] show ?thesis
    by auto
qed

lemma main_returns:
  assumes "glfwInit_ret env \<noteq> 0" and "glfwCreateWindow_ret env \<noteq> NULL"
    and "glewInit_ret env = GLEW_OK" and "1 \<le> k" and "exit_requested env k"
  shows "\<exists>s. main env True = Some (0, s)"
proof -
  from assms(4,5) have "0 < k" "exit_requested env k"
    by simp_all
  from first_exit_ex [OF this] obtain n where
    "1 \<le> n" "exit_requested env n" "\<forall>i. 1 \<le> i \<and> i < n \<longrightarrow> \<not> exit_requested env i"
    by (auto simp: Suc_le_eq)
  with assms(1-3) show ?thesis
    by (simp add: main_exit [of env n])
qed

lemma main_Some_cases:
  assumes "main env a = Some (rc, s)"
  obtains
    (glfw) "glfwInit_ret env = 0" "rc = - 1" "window s = NULL"
      "events s = [GlfwInit, Stderr (''FAILED TO INITIALIZE GLFW!'' @ [CHR 0x0A])]"
  | (window) "glfwInit_ret env \<noteq> 0" "glfwCreateWindow_ret env = NULL" "rc = - 1"
      "window s = NULL"
      "events s = [GlfwInit,
           GlfwWindowHint GLFW_CONTEXT_VERSION_MAJOR 3,
           GlfwWindowHint GLFW_CONTEXT_VERSION_MINOR 3,
           GlfwWindowHint GLFW_OPENGL_FORWARD_COMPAT GL_TRUE,
           GlfwWindowHint GLFW_OPENGL_PROFILE GLFW_OPENGL_CORE_PROFILE,
           GlfwCreateWindow 1280 720 ''huskyTech2'',
           Stderr (''FAILED TO OPEN GLFW WINDOW!'' @ [CHR 0x0A]),
           GlfwTerminate]"
  | (glew) "glfwInit_ret env \<noteq> 0" "glfwCreateWindow_ret env \<noteq> NULL"
      "glewInit_ret env \<noteq> GLEW_OK" "rc = - 1"
      "events s = butlast (setup_events (glfwCreateWindow_ret env)) @
         [Stderr (''FAILED TO INITIALIZE GLEW!'' @ [CHR 0x0A])]"
  | (dead) "glfwInit_ret env \<noteq> 0" "glfwCreateWindow_ret env \<noteq> NULL"
      "glewInit_ret env = GLEW_OK" "\<not> a" "rc = 0"
      "events s = setup_events (glfwCreateWindow_ret env)"
  | (exit) n where "glfwInit_ret env \<noteq> 0" "glfwCreateWindow_ret env \<noteq> NULL"
      "glewInit_ret env = GLEW_OK" "a" "rc = 0" "1 \<le> n" "exit_requested env n"
      "events s = setup_events (glfwCreateWindow_ret env) @
         exit_events env (glfwCreateWindow_ret env) n"
proof (cases "glfwInit_ret env = 0")
  case True
  with assms glfw show ?thesis
    by (auto simp: main_glfwInit_failed)
next
  case init: False
  show ?thesis
  proof (cases "glfwCreateWindow_ret env = NULL")
    case True
    with init assms window show ?thesis
      by (auto simp: main_window_failed)
  next
    case win: False
    show ?thesis
    proof (cases "glewInit_ret env = GLEW_OK")
      case False
      with init win assms glew show ?thesis
        by (auto simp: main_glewInit_failed setup_events_def)
    next
      case loader: True
      show ?thesis
      proof (cases a)
        case False
        with init win loader assms dead show ?thesis
          by (auto simp: main_not_alive running_def)
      next
        case True
        with assms have "main env True = Some (rc, s)"
          by simp
        from main_running_Some [OF init win loader this] obtain n where
          "1 \<le> n" "exit_requested env n" "rc = 0"
          "s = \<lparr>window = glfwCreateWindow_ret env, alive = False, glewExperimental = True,
             polls = n,
             events = setup_events (glfwCreateWindow_ret env) @
               exit_events env (glfwCreateWindow_ret env) n\<rparr>"
          by blast
        with init win loader True exit [of n] show ?thesis
          by simp
      qed
    qed
  qed
qed

subsection \<open>What follows the clearing of the flag\<close>

lemma after_clear_first:
  "Alive_false \<notin> set xs \<Longrightarrow> after_clear (xs @ Alive_false # ys) = ys"
  unfolding after_clear_def by (induction xs) auto

lemma Alive_false_frames: "Alive_false \<notin> set (concat (replicate d (frame_events w)))"
  by (simp add: frame_events_def)

lemma after_clear_exit:
  "after_clear (setup_events w @ exit_events env w n) = [GlfwDestroyWindow w]"
proof -
  have "Alive_false \<notin> set (setup_events w @ concat (replicate (n - 1) (frame_events w)) @
      poll_events env w n)"
    using Alive_false_frames [of "n - 1" w]
    by (simp add: setup_events_def poll_events_def del: set_concat)
  from after_clear_first [OF this, of "[GlfwDestroyWindow w]"] show ?thesis
    by (simp add: exit_events_def)
qed

subsection \<open>The exit condition in the environments above\<close>

lemma exit_requested_escape: "exit_requested (env_escape k) n = (n = k)"
  by (simp add: exit_requested_def env_escape_def at_call_def quiet_def GLFW_PRESS_def)

lemma exit_requested_close: "exit_requested (env_close k) n = (n = k)"
  by (simp add: exit_requested_def env_close_def at_call_def quiet_def GLFW_PRESS_def)

lemma exit_requested_idle: "\<not> exit_requested env_idle n"
  by (simp add: exit_requested_def env_idle_def quiet_def GLFW_PRESS_def)

subsection \<open>Counting render-hook invocations\<close>

lemma count_Draw_frames: "count_list (concat (replicate d (frame_events w))) Draw = d"
  by (induction d) (simp_all add: frame_events_def)

lemma count_Draw_poll: "count_list (poll_events env w n) Draw = 0"
  by (simp add: poll_events_def)

lemma count_Draw_setup: "count_list (setup_events w) Draw = 0"
  by (simp add: setup_events_def)

subsection \<open>The runs of the environments above\<close>

lemma env_escape_ok:
  "glfwInit_ret (env_escape k) \<noteq> 0 \<and> glfwCreateWindow_ret (env_escape k) \<noteq> NULL \<and>
   glewInit_ret (env_escape k) = GLEW_OK \<and> glfwCreateWindow_ret (env_escape k) = 4096"
  by (simp add: env_escape_def NULL_def GLEW_OK_def)

lemma env_close_ok:
  "glfwInit_ret (env_close k) \<noteq> 0 \<and> glfwCreateWindow_ret (env_close k) \<noteq> NULL \<and>
   glewInit_ret (env_close k) = GLEW_OK \<and> glfwCreateWindow_ret (env_close k) = 4096"
  by (simp add: env_close_def NULL_def GLEW_OK_def)

lemma env_idle_ok:
  "glfwInit_ret env_idle \<noteq> 0 \<and> glfwCreateWindow_ret env_idle \<noteq> NULL \<and>
   glewInit_ret env_idle = GLEW_OK \<and> glfwCreateWindow_ret env_idle = 4096"
  by (simp add: env_idle_def NULL_def GLEW_OK_def)

lemma main_escape:
  assumes "1 \<le> k"
  shows "main (env_escape k) True =
     Some (0, \<lparr>window = 4096, alive = False, glewExperimental = True, polls = k,
       events = setup_events 4096 @ concat (replicate (k - 1) (frame_events 4096)) @
         [GlfwGetKey 4096 GLFW_KEY_ESCAPE, Alive_false, GlfwDestroyWindow 4096]\<rparr>)"
proof -
  have "main (env_escape k) True =
     Some (0, \<lparr>window = glfwCreateWindow_ret (env_escape k), alive = False,
       glewExperimental = True, polls = k,
       events = setup_events (glfwCreateWindow_ret (env_escape k)) @
         exit_events (env_escape k) (glfwCreateWindow_ret (env_escape k)) k\<rparr>)"
    using assms by (intro main_exit) (simp_all add: env_escape_ok exit_requested_escape NULL_def)
  moreover have "exit_events (env_escape k) 4096 k =
      concat (replicate (k - 1) (frame_events 4096)) @
        [GlfwGetKey 4096 GLFW_KEY_ESCAPE, Alive_false, GlfwDestroyWindow 4096]"
    by (simp add: exit_events_def poll_events_def env_escape_def at_call_def GLFW_PRESS_def)
  ultimately show ?thesis
    by (simp add: env_escape_ok)
qed

lemma main_close:
  assumes "1 \<le> k"
  shows "main (env_close k) True =
     Some (0, \<lparr>window = 4096, alive = False, glewExperimental = True, polls = k,
       events = setup_events 4096 @ concat (replicate (k - 1) (frame_events 4096)) @
         [GlfwGetKey 4096 GLFW_KEY_ESCAPE, GlfwWindowShouldClose 4096, Alive_false,
          GlfwDestroyWindow 4096]\<rparr>)"
proof -
  have "main (env_close k) True =
     Some (0, \<lparr>window = glfwCreateWindow_ret (env_close k), alive = False,
       glewExperimental = True, polls = k,
       events = setup_events (glfwCreateWindow_ret (env_close k)) @
         exit_events (env_close k) (glfwCreateWindow_ret (env_close k)) k\<rparr>)"
    using assms by (intro main_exit) (simp_all add: env_close_ok exit_requested_close NULL_def)
  moreover have "exit_events (env_close k) 4096 k =
      concat (replicate (k - 1) (frame_events 4096)) @
        [GlfwGetKey 4096 GLFW_KEY_ESCAPE, GlfwWindowShouldClose 4096, Alive_false,
         GlfwDestroyWindow 4096]"
    by (simp add: exit_events_def poll_events_def env_close_def quiet_def GLFW_PRESS_def)
  ultimately show ?thesis
    by (simp add: env_close_ok)
qed

section \<open>The claims\<close>

subsection \<open>Failures before the loop\<close>

text \<open>
  Claim C6. In every run where library initialization (\<open>glfwInit\<close>) fails, the process
  exits with a non-zero status and window creation is never attempted: \<open>main\<close> returns,
  its status is not 0, and its trace holds the call of \<open>glfwInit\<close> and the message on
  standard error, and no call of \<open>glfwCreateWindow\<close>.
\<close>

theorem glfwInit_failure_skips_window:
  assumes "glfwInit_ret env = 0"
  shows "\<exists>rc s. main env a = Some (rc, s) \<and> rc \<noteq> 0 \<and>
           \<not> list_ex is_create_window (events s) \<and>
           events s = [GlfwInit, Stderr (''FAILED TO INITIALIZE GLFW!'' @ [CHR 0x0A])]"
  using assms by (simp add: main_glfwInit_failed)

theorem glfwInit_failure_skips_window_witness:
  "glfwInit_ret env_no_glfw = 0 \<and>
   (\<exists>rc s. main env_no_glfw True = Some (rc, s) \<and> rc \<noteq> 0 \<and>
      \<not> list_ex is_create_window (events s) \<and>
      events s = [GlfwInit, Stderr (''FAILED TO INITIALIZE GLFW!'' @ [CHR 0x0A])])"
proof -
  have h: "glfwInit_ret env_no_glfw = 0"
    by (simp add: env_no_glfw_def)
  from glfwInit_failure_skips_window [OF h, of True] h show ?thesis
    by (intro conjI)
qed

text \<open>
  Claim C7. In every run where window creation fails (\<open>glfwInit\<close> has succeeded and
  \<open>glfwCreateWindow\<close> returns \<open>NULL\<close>), the process calls \<open>glfwTerminate\<close> before
  exiting: \<open>main\<close> returns, and \<open>glfwTerminate\<close> is the last call of its trace and
  occurs nowhere before.
\<close>

theorem window_failure_terminates:
  assumes "glfwInit_ret env \<noteq> 0" and "glfwCreateWindow_ret env = NULL"
  shows "\<exists>s pre. main env a = Some (- 1, s) \<and>
           events s = pre @ [GlfwTerminate] \<and> GlfwTerminate \<notin> set pre \<and>
           \<not> list_ex is_frame_event (events s)"
  using assms by (simp add: main_window_failed)

theorem window_failure_terminates_witness:
  "glfwInit_ret env_no_window \<noteq> 0 \<and> glfwCreateWindow_ret env_no_window = NULL \<and>
   (\<exists>s pre. main env_no_window True = Some (- 1, s) \<and>
      events s = pre @ [GlfwTerminate] \<and> GlfwTerminate \<notin> set pre)"
proof -
  have h: "glfwInit_ret env_no_window \<noteq> 0" "glfwCreateWindow_ret env_no_window = NULL"
    by (simp_all add: env_no_window_def)
  from window_failure_terminates [OF h, of True] h show ?thesis
    by blast
qed

text \<open>
  Claim C8. In every run where GL loader initialization (\<open>glewInit\<close>) fails, the
  process reports the failure on standard error and exits with status -1 without ever
  entering the frame loop (no poll, no render hook), and on that path it neither destroys
  the window nor calls \<open>glfwTerminate\<close>.
\<close>

theorem glewInit_failure_leaves:
  assumes "glfwInit_ret env \<noteq> 0" and "glfwCreateWindow_ret env \<noteq> NULL"
    and "glewInit_ret env \<noteq> GLEW_OK"
  shows "\<exists>s pre. main env a = Some (- 1, s) \<and>
           events s = pre @ [Stderr (''FAILED TO INITIALIZE GLEW!'' @ [CHR 0x0A])] \<and>
           polls s = 0 \<and>
           \<not> list_ex is_frame_event (events s) \<and>
           \<not> list_ex is_destroy_window (events s) \<and>
           GlfwTerminate \<notin> set (events s)"
  using assms by (simp add: main_glewInit_failed)

theorem glewInit_failure_leaves_witness:
  "glfwInit_ret env_no_glew \<noteq> 0 \<and> glfwCreateWindow_ret env_no_glew \<noteq> NULL \<and>
   glewInit_ret env_no_glew \<noteq> GLEW_OK \<and>
   (\<exists>s pre. main env_no_glew True = Some (- 1, s) \<and>
      events s = pre @ [Stderr (''FAILED TO INITIALIZE GLEW!'' @ [CHR 0x0A])] \<and>
      polls s = 0 \<and>
      \<not> list_ex is_frame_event (events s) \<and>
      \<not> list_ex is_destroy_window (events s) \<and>
      GlfwTerminate \<notin> set (events s))"
proof -
  have h: "glfwInit_ret env_no_glew \<noteq> 0" "glfwCreateWindow_ret env_no_glew \<noteq> NULL"
    "glewInit_ret env_no_glew \<noteq> GLEW_OK"
    by (simp_all add: env_no_glew_def NULL_def GLEW_OK_def)
  from glewInit_failure_leaves [OF h, of True] h show ?thesis
    by (intro conjI)
qed

subsection \<open>The exit status\<close>

text \<open>
  Claim C5. The exit status (the value \<open>main\<close> returns) is -1 whenever library
  initialization, window creation or GL loader initialization fails, and 0 on a normal
  user-initiated exit, that is when everything has succeeded and some poll of the loop
  finds the exit condition.
\<close>

theorem exit_status:
  "(glfwInit_ret env = 0 \<longrightarrow> status_of (main env a) = Some (- 1)) \<and>
   (glfwInit_ret env \<noteq> 0 \<and> glfwCreateWindow_ret env = NULL \<longrightarrow>
      status_of (main env a) = Some (- 1)) \<and>
   (glfwInit_ret env \<noteq> 0 \<and> glfwCreateWindow_ret env \<noteq> NULL \<and>
    glewInit_ret env \<noteq> GLEW_OK \<longrightarrow>
      status_of (main env a) = Some (- 1)) \<and>
   (glfwInit_ret env \<noteq> 0 \<and> glfwCreateWindow_ret env \<noteq> NULL \<and>
    glewInit_ret env = GLEW_OK \<and> (\<exists>n\<ge>1. exit_requested env n) \<longrightarrow>
      status_of (main env True) = Some 0)"
proof (intro conjI impI)
  assume "glfwInit_ret env = 0"
  then show "status_of (main env a) = Some (- 1)"
    by (simp add: main_glfwInit_failed status_of_def)
next
  assume "glfwInit_ret env \<noteq> 0 \<and> glfwCreateWindow_ret env = NULL"
  then show "status_of (main env a) = Some (- 1)"
    by (simp add: main_window_failed status_of_def)
next
  assume "glfwInit_ret env \<noteq> 0 \<and> glfwCreateWindow_ret env \<noteq> NULL \<and>
    glewInit_ret env \<noteq> GLEW_OK"
  then show "status_of (main env a) = Some (- 1)"
    by (simp add: main_glewInit_failed status_of_def)
next
  assume h: "glfwInit_ret env \<noteq> 0 \<and> glfwCreateWindow_ret env \<noteq> NULL \<and>
    glewInit_ret env = GLEW_OK \<and> (\<exists>n\<ge>1. exit_requested env n)"
  then obtain k where "0 < k" "exit_requested env k"
    by (auto simp: Suc_le_eq)
  from first_exit_ex [OF this] obtain n where
    "1 \<le> n" "exit_requested env n" "\<forall>i. 1 \<le> i \<and> i < n \<longrightarrow> \<not> exit_requested env i"
    by (auto simp: Suc_le_eq)
  with h show "status_of (main env True) = Some 0"
    by (simp add: main_exit [of env n] status_of_def)
qed

theorem exit_status_witness:
  "status_of (main env_no_glfw True) = Some (- 1) \<and>
   status_of (main env_no_window True) = Some (- 1) \<and>
   status_of (main env_no_glew True) = Some (- 1) \<and>
   status_of (main (env_escape 5) True) = Some 0 \<and>
   status_of (main (env_close 1) True) = Some 0"
proof -
  have "exit_requested (env_escape 5) 5" "exit_requested (env_close 1) 1"
    by (simp_all add: exit_requested_escape exit_requested_close)
  then have "\<exists>n\<ge>1. exit_requested (env_escape 5) n" "\<exists>n\<ge>1. exit_requested (env_close 1) n"
    by (intro exI [of _ 5] exI [of _ 1] conjI; simp)+
  then show ?thesis
    using exit_status [of env_no_glfw True] exit_status [of env_no_window True]
      exit_status [of env_no_glew True] exit_status [of "env_escape 5"]
      exit_status [of "env_close 1"]
    by (simp add: env_escape_ok env_close_ok env_no_glfw_def env_no_window_def env_no_glew_def
        NULL_def GLEW_OK_def)
qed

subsection \<open>The frame loop\<close>

text \<open>
  Claim C3. If the exit condition (Escape key or window-close signal) first holds at
  loop iteration \<open>n\<close>, with \<open>n \<ge> 1\<close>, then \<open>draw\<close> is called exactly \<open>n - 1\<close> times, all
  of them before the teardown, which is the destruction of the window followed by exit
  status 0. The witness is the two scenarios of the claim: Escape in iteration 5 gives
  four \<open>draw\<close> calls and then the teardown, a window-close signal in iteration 1 gives no
  \<open>draw\<close> call, the destruction of the window and status 0.
\<close>

theorem exit_at_iteration_n:
  assumes "glfwInit_ret env \<noteq> 0" and "glfwCreateWindow_ret env \<noteq> NULL"
    and "glewInit_ret env = GLEW_OK"
    and "1 \<le> n" and "exit_requested env n"
    and "\<forall>i. 1 \<le> i \<and> i < n \<longrightarrow> \<not> exit_requested env i"
  shows "\<exists>s pre. main env True = Some (0, s) \<and>
           events s = pre @ [Alive_false, GlfwDestroyWindow (glfwCreateWindow_ret env)] \<and>
           count_list pre Draw = n - 1 \<and>
           count_list (events s) Draw = n - 1 \<and>
           polls s = n"
proof -
  let ?w = "glfwCreateWindow_ret env"
  let ?pre = "setup_events ?w @ concat (replicate (n - 1) (frame_events ?w)) @
    poll_events env ?w n"
  let ?s = "\<lparr>window = ?w, alive = False, glewExperimental = True, polls = n,
    events = setup_events ?w @ exit_events env ?w n\<rparr>"
  have "main env True = Some (0, ?s)"
    using assms by (rule main_exit)
  moreover have "events ?s = ?pre @ [Alive_false, GlfwDestroyWindow ?w]"
    by (simp add: exit_events_def)
  moreover have pre: "count_list ?pre Draw = n - 1"
    by (simp add: count_Draw_frames count_Draw_poll count_Draw_setup)
  moreover have "count_list (events ?s) Draw = n - 1"
    by (simp add: exit_events_def count_Draw_frames count_Draw_poll count_Draw_setup)
  moreover have "polls ?s = n"
    by simp
  ultimately show ?thesis
    by blast
qed

theorem exit_at_iteration_n_witness:
  "(\<exists>s pre. main (env_escape 5) True = Some (0, s) \<and>
      events s = pre @ [Alive_false, GlfwDestroyWindow 4096] \<and>
      count_list pre Draw = 4 \<and> count_list (events s) Draw = 4 \<and> polls s = 5) \<and>
   trace_of (main (env_escape 5) True) =
     Some (setup_events 4096 @
       frame_events 4096 @ frame_events 4096 @ frame_events 4096 @ frame_events 4096 @
       [GlfwGetKey 4096 GLFW_KEY_ESCAPE, Alive_false, GlfwDestroyWindow 4096]) \<and>
   (\<exists>s pre. main (env_close 1) True = Some (0, s) \<and>
      events s = pre @ [Alive_false, GlfwDestroyWindow 4096] \<and>
      count_list pre Draw = 0 \<and> count_list (events s) Draw = 0 \<and> polls s = 1) \<and>
   trace_of (main (env_close 1) True) =
     Some (setup_events 4096 @
       [GlfwGetKey 4096 GLFW_KEY_ESCAPE, GlfwWindowShouldClose 4096, Alive_false,
        GlfwDestroyWindow 4096])"
proof -
  have "\<exists>s pre. main (env_escape 5) True = Some (0, s) \<and>
      events s = pre @ [Alive_false, GlfwDestroyWindow 4096] \<and>
      count_list pre Draw = 4 \<and> count_list (events s) Draw = 4 \<and> polls s = 5"
    using exit_at_iteration_n [of "env_escape 5" 5]
    by (simp add: env_escape_ok exit_requested_escape NULL_def)
  moreover have "\<exists>s pre. main (env_close 1) True = Some (0, s) \<and>
      events s = pre @ [Alive_false, GlfwDestroyWindow 4096] \<and>
      count_list pre Draw = 0 \<and> count_list (events s) Draw = 0 \<and> polls s = 1"
    using exit_at_iteration_n [of "env_close 1" 1]
    by (simp add: env_close_ok exit_requested_close NULL_def)
  moreover have "trace_of (main (env_escape 5) True) =
     Some (setup_events 4096 @
       frame_events 4096 @ frame_events 4096 @ frame_events 4096 @ frame_events 4096 @
       [GlfwGetKey 4096 GLFW_KEY_ESCAPE, Alive_false, GlfwDestroyWindow 4096])"
    by (simp add: main_escape trace_of_def eval_nat_numeral)
  moreover have "trace_of (main (env_close 1) True) =
     Some (setup_events 4096 @
       [GlfwGetKey 4096 GLFW_KEY_ESCAPE, GlfwWindowShouldClose 4096, Alive_false,
        GlfwDestroyWindow 4096])"
    by (simp add: main_close trace_of_def)
  ultimately show ?thesis
    by (intro conjI)
qed

text \<open>
  Claim C10. The frame loop terminates if and only if the poll of some iteration finds
  the exit condition (Escape pressed or window-close signal); for an input trace in
  which the exit condition never holds, the loop runs forever and \<open>main\<close> never
  returns. Stated for \<open>main\<close> when everything before the loop succeeds and the flag
  starts true, and for the loop entered in any state in which \<open>alive\<close> is true.
\<close>

theorem loop_terminates_iff:
  assumes "glfwInit_ret env \<noteq> 0" and "glfwCreateWindow_ret env \<noteq> NULL"
    and "glewInit_ret env = GLEW_OK"
  shows "((\<exists>r. main env True = Some r) = (\<exists>n\<ge>1. exit_requested env n)) \<and>
         ((\<forall>n\<ge>1. \<not> exit_requested env n) \<longrightarrow> main env True = None) \<and>
         (\<forall>s. alive s \<longrightarrow>
            (\<exists>s'. frame_loop env s = Some s') = (\<exists>n>polls s. exit_requested env n))"
proof (intro conjI allI impI)
  show "(\<exists>r. main env True = Some r) = (\<exists>n\<ge>1. exit_requested env n)"
  proof
    assume "\<exists>r. main env True = Some r"
    then obtain rc s where "main env True = Some (rc, s)"
      by auto
    from main_running_Some [OF assms this] show "\<exists>n\<ge>1. exit_requested env n"
      by blast
  next
    assume "\<exists>n\<ge>1. exit_requested env n"
    then obtain k where "0 < k" "exit_requested env k"
      by (auto simp: Suc_le_eq)
    from first_exit_ex [OF this] obtain n where
      "1 \<le> n" "exit_requested env n" "\<forall>i. 1 \<le> i \<and> i < n \<longrightarrow> \<not> exit_requested env i"
      by (auto simp: Suc_le_eq)
    with assms show "\<exists>r. main env True = Some r"
      by (simp add: main_exit [of env n])
  qed
next
  assume "\<forall>n\<ge>1. \<not> exit_requested env n"
  with assms show "main env True = None"
    by (simp add: main_idle)
next
  fix s :: state
  assume "alive s"
  then show "(\<exists>s'. frame_loop env s = Some s') = (\<exists>n>polls s. exit_requested env n)"
    by (rule frame_loop_returns_iff)
qed

theorem loop_terminates_iff_witness:
  "main env_idle True = None \<and>
   status_of (main (env_escape 5) True) = Some 0 \<and>
   exit_requested (env_escape 5) 5 \<and>
   frame_loop env_idle (running 4096 True) = None"
proof -
  have ok: "glfwInit_ret env_idle \<noteq> 0" "glfwCreateWindow_ret env_idle \<noteq> NULL"
    "glewInit_ret env_idle = GLEW_OK"
    by (simp_all add: env_idle_ok NULL_def)
  have ok5: "glfwInit_ret (env_escape 5) \<noteq> 0" "glfwCreateWindow_ret (env_escape 5) \<noteq> NULL"
    "glewInit_ret (env_escape 5) = GLEW_OK"
    by (simp_all add: env_escape_ok NULL_def)
  have "main env_idle True = None"
    using loop_terminates_iff [OF ok] by (simp add: exit_requested_idle)
  moreover have "frame_loop env_idle (running 4096 True) = None"
  proof -
    have "alive (running 4096 True)"
      by (simp add: running_def)
    with loop_terminates_iff [OF ok]
    have "(\<exists>s'. frame_loop env_idle (running 4096 True) = Some s') =
        (\<exists>n>polls (running 4096 True). exit_requested env_idle n)"
      by blast
    then show ?thesis
      by (simp add: exit_requested_idle)
  qed
  moreover have "\<exists>r. main (env_escape 5) True = Some r"
  proof -
    have "\<exists>n\<ge>1. exit_requested (env_escape 5) n"
      by (intro exI [of _ 5]) (simp add: exit_requested_escape)
    with loop_terminates_iff [OF ok5] show ?thesis
      by blast
  qed
  ultimately show ?thesis
    by (simp add: main_escape status_of_def exit_requested_escape)
qed

subsection \<open>The input poll\<close>

text \<open>
  Claim C4. \<open>input_update\<close> sets the alive flag to false if and only if Escape is
  reported pressed or the window system signals a close request, and nothing else in
  the program clears the flag: a call of \<open>input_update\<close> in a state where the flag is
  true leaves it false exactly when the condition holds, and it performs the assignment
  \<open>alive = false\<close> exactly when the condition holds; \<open>draw\<close> and \<open>explode\<close> neither
  change the flag nor assign to it; and when \<open>main\<close>, started with the flag true, returns
  with the flag false, the last poll has found the exit condition. The answers the
  condition is made of are those of the calls the poll makes: its one call of
  \<open>glfwGetKey\<close> asks for the key \<open>GLFW_KEY_ESCAPE\<close> of the program's window, and its
  call of \<open>glfwWindowShouldClose\<close>, made when the key is not reported pressed, asks
  for the close flag of that window.
\<close>

theorem alive_cleared_iff:
  "(alive s \<longrightarrow>
      (\<not> alive (input_update env s)) =
        (glfwGetKey_ret env (Suc (polls s)) = GLFW_PRESS \<or>
         glfwWindowShouldClose_ret env (Suc (polls s)) \<noteq> 0)) \<and>
   count_list (events (input_update env s)) Alive_false =
     count_list (events s) Alive_false +
       (if glfwGetKey_ret env (Suc (polls s)) = GLFW_PRESS \<or>
           glfwWindowShouldClose_ret env (Suc (polls s)) \<noteq> 0 then 1 else 0) \<and>
   alive (draw s) = alive s \<and>
   count_list (events (draw s)) Alive_false = count_list (events s) Alive_false \<and>
   alive (explode s) = alive s \<and>
   count_list (events (explode s)) Alive_false = count_list (events s) Alive_false \<and>
   (main env True = Some (rc, s') \<and> \<not> alive s' \<longrightarrow>
      1 \<le> polls s' \<and> exit_requested env (polls s')) \<and>
   polls (input_update env s) = Suc (polls s) \<and>
   events (input_update env s) =
     events s @ [GlfwGetKey (window s) GLFW_KEY_ESCAPE] @
       (if glfwGetKey_ret env (Suc (polls s)) = GLFW_PRESS
        then [] else [GlfwWindowShouldClose (window s)]) @
       (if glfwGetKey_ret env (Suc (polls s)) = GLFW_PRESS \<or>
           glfwWindowShouldClose_ret env (Suc (polls s)) \<noteq> 0
        then [Alive_false] else [])"
proof (intro conjI)
  show "polls (input_update env s) = Suc (polls s)"
    by (simp add: input_update_def emit_def Let_def)
  show "events (input_update env s) =
     events s @ [GlfwGetKey (window s) GLFW_KEY_ESCAPE] @
       (if glfwGetKey_ret env (Suc (polls s)) = GLFW_PRESS
        then [] else [GlfwWindowShouldClose (window s)]) @
       (if glfwGetKey_ret env (Suc (polls s)) = GLFW_PRESS \<or>
           glfwWindowShouldClose_ret env (Suc (polls s)) \<noteq> 0
        then [Alive_false] else [])"
    by (simp add: input_update_def emit_def Let_def)
  show "alive s \<longrightarrow>
      (\<not> alive (input_update env s)) =
        (glfwGetKey_ret env (Suc (polls s)) = GLFW_PRESS \<or>
         glfwWindowShouldClose_ret env (Suc (polls s)) \<noteq> 0)"
    by (simp add: alive_input_update exit_requested_def)
  show "count_list (events (input_update env s)) Alive_false =
     count_list (events s) Alive_false +
       (if glfwGetKey_ret env (Suc (polls s)) = GLFW_PRESS \<or>
           glfwWindowShouldClose_ret env (Suc (polls s)) \<noteq> 0 then 1 else 0)"
    by (simp add: input_update_def emit_def Let_def)
  show "alive (draw s) = alive s"
    by (simp add: draw_def emit_def)
  show "count_list (events (draw s)) Alive_false = count_list (events s) Alive_false"
    by (simp add: draw_def emit_def)
  show "alive (explode s) = alive s"
    by (simp add: explode_def emit_def)
  show "count_list (events (explode s)) Alive_false = count_list (events s) Alive_false"
    by (simp add: explode_def emit_def)
  show "main env True = Some (rc, s') \<and> \<not> alive s' \<longrightarrow>
      1 \<le> polls s' \<and> exit_requested env (polls s')"
    using main_True_cleared [of env rc s'] by blast
qed

theorem alive_cleared_iff_witness:
  "alive (running 4096 True) \<and>
   glfwGetKey_ret (env_escape 1) 1 = GLFW_PRESS \<and>
   \<not> alive (input_update (env_escape 1) (running 4096 True)) \<and>
   glfwWindowShouldClose_ret (env_close 1) 1 \<noteq> 0 \<and>
   \<not> alive (input_update (env_close 1) (running 4096 True)) \<and>
   glfwGetKey_ret env_idle 1 \<noteq> GLFW_PRESS \<and> glfwWindowShouldClose_ret env_idle 1 = 0 \<and>
   alive (input_update env_idle (running 4096 True)) \<and>
   status_of (main (env_escape 5) True) = Some 0 \<and>
   exit_requested (env_escape 5) 5 \<and>
   events (input_update (env_escape 1) (running 4096 True)) =
     setup_events 4096 @ [GlfwGetKey 4096 GLFW_KEY_ESCAPE, Alive_false] \<and>
   events (input_update (env_close 1) (running 4096 True)) =
     setup_events 4096 @
       [GlfwGetKey 4096 GLFW_KEY_ESCAPE, GlfwWindowShouldClose 4096, Alive_false] \<and>
   events (input_update env_idle (running 4096 True)) =
     setup_events 4096 @ [GlfwGetKey 4096 GLFW_KEY_ESCAPE, GlfwWindowShouldClose 4096]"
proof -
  let ?s = "running 4096 True"
  let ?t = "\<lparr>window = 4096, alive = False, glewExperimental = True, polls = 5,
       events = setup_events 4096 @ concat (replicate (5 - 1) (frame_events 4096)) @
         [GlfwGetKey 4096 GLFW_KEY_ESCAPE, Alive_false, GlfwDestroyWindow 4096]\<rparr>"
  have s: "alive ?s" "polls ?s = 0"
    by (simp_all add: running_def)
  have m: "main (env_escape 5) True = Some (0, ?t)"
    by (rule main_escape) simp
  have e: "glfwGetKey_ret (env_escape 1) 1 = GLFW_PRESS"
    "glfwWindowShouldClose_ret (env_close 1) 1 \<noteq> 0"
    "glfwGetKey_ret (env_close 1) 1 \<noteq> GLFW_PRESS"
    "glfwGetKey_ret env_idle 1 \<noteq> GLFW_PRESS" "glfwWindowShouldClose_ret env_idle 1 = 0"
    by (simp_all add: env_escape_def env_close_def env_idle_def at_call_def quiet_def
        GLFW_PRESS_def)
  have "\<not> alive (input_update (env_escape 1) ?s)"
    using alive_cleared_iff [where s = "?s" and env = "env_escape 1"] s e by simp
  moreover have "\<not> alive (input_update (env_close 1) ?s)"
    using alive_cleared_iff [where s = "?s" and env = "env_close 1"] s e by simp
  moreover have "alive (input_update env_idle ?s)"
    using alive_cleared_iff [where s = "?s" and env = env_idle] s e by simp
  moreover have "exit_requested (env_escape 5) 5"
    using alive_cleared_iff [where env = "env_escape 5" and rc = 0 and s' = "?t"] m
    by simp
  moreover have "events (input_update (env_escape 1) ?s) =
     setup_events 4096 @ [GlfwGetKey 4096 GLFW_KEY_ESCAPE, Alive_false]"
    using alive_cleared_iff [where s = "?s" and env = "env_escape 1"] s e
    by (simp add: running_def)
  moreover have "events (input_update (env_close 1) ?s) =
     setup_events 4096 @
       [GlfwGetKey 4096 GLFW_KEY_ESCAPE, GlfwWindowShouldClose 4096, Alive_false]"
    using alive_cleared_iff [where s = "?s" and env = "env_close 1"] s e
    by (simp add: running_def)
  moreover have "events (input_update env_idle ?s) =
     setup_events 4096 @ [GlfwGetKey 4096 GLFW_KEY_ESCAPE, GlfwWindowShouldClose 4096]"
    using alive_cleared_iff [where s = "?s" and env = env_idle] s e
    by (simp add: running_def)
  ultimately show ?thesis
    using s e m by (simp add: status_of_def)
qed

text \<open>
  Claim C9. \<open>input_update\<close> changes no program state but the alive flag, and changes
  the flag only from true to false; in particular the window handle is the same after
  every call. (\<open>polls\<close> and \<open>events\<close> are the model's record of the calls made, not
  program state.)
\<close>

theorem input_update_frame:
  "window (input_update env s) = window s \<and>
   glewExperimental (input_update env s) = glewExperimental s \<and>
   (alive (input_update env s) \<longrightarrow> alive s) \<and>
   input_update env s =
     s\<lparr>alive := alive (input_update env s), polls := polls (input_update env s),
       events := events (input_update env s)\<rparr>"
  by (simp add: input_update_def emit_def Let_def)

theorem input_update_frame_witness:
  "window (input_update (env_escape 1) (running 4096 True)) = window (running 4096 True) \<and>
   glewExperimental (input_update (env_escape 1) (running 4096 True)) =
     glewExperimental (running 4096 True) \<and>
   \<not> alive (input_update (env_escape 1) (running 4096 True)) \<and>
   alive (input_update env_idle (running 4096 True)) \<and>
   alive (running 4096 True) \<and>
   \<not> alive (input_update env_idle (running 4096 False))"
proof -
  have idle: "alive (input_update env_idle (running 4096 True))"
    by (simp add: alive_input_update exit_requested_idle running_def)
  have esc: "\<not> alive (input_update (env_escape 1) (running 4096 True))"
    by (simp add: alive_input_update exit_requested_escape running_def)
  have dead: "\<not> alive (running 4096 False)"
    by (simp add: running_def)
  from input_update_frame [of "env_escape 1" "running 4096 True"]
  have "window (input_update (env_escape 1) (running 4096 True)) = window (running 4096 True) \<and>
    glewExperimental (input_update (env_escape 1) (running 4096 True)) =
      glewExperimental (running 4096 True)"
    by (elim conjE) (intro conjI)
  moreover from input_update_frame [of env_idle "running 4096 True"] idle
  have "alive (running 4096 True)"
    by (elim conjE impE)
  moreover from input_update_frame [of env_idle "running 4096 False"] dead
  have "\<not> alive (input_update env_idle (running 4096 False))"
    by blast
  ultimately show ?thesis
    using idle esc by blast
qed

subsection \<open>After the flag is cleared\<close>

text \<open>
  Claim C2. For every run and every input trace, once the alive flag has become false,
  the render hook is never invoked again, and the frame loop does not execute another
  frame. A run that returns has no render-hook invocation and no poll in its trace after
  the first assignment \<open>alive = false\<close>, and none at all when the flag is false from
  the start; a run that does not return started with the flag true and never finds the
  exit condition, so that its flag is never cleared.
\<close>

theorem no_frame_after_alive_false:
  "(main env a = Some (rc, s) \<longrightarrow>
      \<not> list_ex is_frame_event (after_clear (events s)) \<and>
      (\<not> a \<longrightarrow> \<not> list_ex is_frame_event (events s))) \<and>
   (main env a = None \<longrightarrow> a \<and> (\<forall>n\<ge>1. \<not> exit_requested env n))"
proof (intro conjI impI)
  assume ret: "main env a = Some (rc, s)"
  then show "\<not> list_ex is_frame_event (after_clear (events s))"
  proof (cases rule: main_Some_cases)
    case glfw
    then show ?thesis by (simp add: after_clear_def)
  next
    case window
    then show ?thesis by (simp add: after_clear_def)
  next
    case glew
    then show ?thesis by (simp add: after_clear_def setup_events_def)
  next
    case dead
    then show ?thesis by (simp add: after_clear_def setup_events_def)
  next
    case (exit n)
    then show ?thesis by (simp add: after_clear_exit)
  qed
  assume "\<not> a"
  with ret show "\<not> list_ex is_frame_event (events s)"
  proof (cases rule: main_Some_cases)
    case glfw
    then show ?thesis by simp
  next
    case window
    then show ?thesis by simp
  next
    case glew
    then show ?thesis by (simp add: setup_events_def)
  next
    case dead
    then show ?thesis by (simp add: setup_events_def)
  next
    case (exit n)
    with \<open>\<not> a\<close> show ?thesis by simp
  qed
next
  assume none: "main env a = None"
  have ok: "glfwInit_ret env \<noteq> 0 \<and> glfwCreateWindow_ret env \<noteq> NULL \<and>
      glewInit_ret env = GLEW_OK"
  proof (rule ccontr)
    assume "\<not> ?thesis"
    then consider "glfwInit_ret env = 0"
      | "glfwInit_ret env \<noteq> 0" "glfwCreateWindow_ret env = NULL"
      | "glfwInit_ret env \<noteq> 0" "glfwCreateWindow_ret env \<noteq> NULL"
        "glewInit_ret env \<noteq> GLEW_OK"
      by blast
    then show False
    proof cases
      case 1
      with none show False by (simp add: main_glfwInit_failed)
    next
      case 2
      with none show False by (simp add: main_window_failed)
    next
      case 3
      with none show False by (simp add: main_glewInit_failed)
    qed
  qed
  show a: a
  proof (rule ccontr)
    assume "\<not> a"
    with ok none show False
      by (simp add: main_not_alive)
  qed
  show "\<forall>n\<ge>1. \<not> exit_requested env n"
  proof (intro allI impI notI)
    fix n :: nat
    assume "1 \<le> n" "exit_requested env n"
    with ok have "\<exists>s. main env True = Some (0, s)"
      by (intro main_returns [of env n]) simp_all
    with a none show False
      by simp
  qed
qed

theorem no_frame_after_alive_false_witness:
  "trace_of (main (env_escape 5) True) =
     Some (setup_events 4096 @ concat (replicate 4 (frame_events 4096)) @
       [GlfwGetKey 4096 GLFW_KEY_ESCAPE, Alive_false, GlfwDestroyWindow 4096]) \<and>
   after_clear (setup_events 4096 @ concat (replicate 4 (frame_events 4096)) @
       [GlfwGetKey 4096 GLFW_KEY_ESCAPE, Alive_false, GlfwDestroyWindow 4096]) =
     [GlfwDestroyWindow 4096] \<and>
   \<not> list_ex is_frame_event [GlfwDestroyWindow 4096] \<and>
   trace_of (main (env_escape 5) False) = Some (setup_events 4096) \<and>
   \<not> list_ex is_frame_event (setup_events 4096) \<and>
   main env_idle True = None \<and> \<not> exit_requested env_idle 3"
proof -
  let ?t = "\<lparr>window = 4096, alive = False, glewExperimental = True, polls = 5,
       events = setup_events 4096 @ concat (replicate (5 - 1) (frame_events 4096)) @
         [GlfwGetKey 4096 GLFW_KEY_ESCAPE, Alive_false, GlfwDestroyWindow 4096]\<rparr>"
  have m: "main (env_escape 5) True = Some (0, ?t)"
    by (rule main_escape) simp
  have d: "main (env_escape 5) False = Some (0, running 4096 False)"
    using main_not_alive [of "env_escape 5"] by (simp add: env_escape_ok NULL_def)
  have i: "main env_idle True = None"
    using main_idle [of env_idle] by (simp add: env_idle_ok NULL_def exit_requested_idle)
  have "\<not> list_ex is_frame_event (after_clear (events ?t))"
    using no_frame_after_alive_false [of "env_escape 5" True 0 ?t] m by simp
  moreover have "after_clear (events ?t) = [GlfwDestroyWindow 4096]"
    using after_clear_first [of "setup_events 4096 @ concat (replicate 4 (frame_events 4096)) @
       [GlfwGetKey 4096 GLFW_KEY_ESCAPE]" "[GlfwDestroyWindow 4096]"]
      Alive_false_frames [of 4 4096]
    by (simp add: setup_events_def del: set_concat)
  moreover have "\<not> list_ex is_frame_event (events (running 4096 False))"
    using no_frame_after_alive_false [of "env_escape 5" False 0 "running 4096 False"] d
    by simp
  moreover have "\<not> exit_requested env_idle 3"
    using no_frame_after_alive_false [of env_idle True] i by simp
  ultimately show ?thesis
    using m d i by (simp add: trace_of_def running_def)
qed

subsection \<open>Subsystem shutdown\<close>

text \<open>
  Claim C1. On every exit path of the program, \<open>glfwTerminate\<close> is called exactly
  once, and only after the window has been destroyed. The program does not do this.
  On the normal exit (here: everything succeeds and the window-close signal comes in
  the first iteration) \<open>explode\<close> destroys the window and \<open>main\<close> returns 0 with no call
  of \<open>glfwTerminate\<close>; when \<open>glewInit\<close> fails, \<open>main\<close> returns -1 with the window
  neither destroyed nor \<open>glfwTerminate\<close> called. The branch for a failed window
  creation, next to them in \<open>main\<close>, does call \<open>glfwTerminate\<close> before it returns.
\<close>

theorem shutdown_missing_on_exit:
  "trace_of (main (env_close 1) True) =
     Some (setup_events 4096 @
       [GlfwGetKey 4096 GLFW_KEY_ESCAPE, GlfwWindowShouldClose 4096, Alive_false,
        GlfwDestroyWindow 4096]) \<and>
   status_of (main (env_close 1) True) = Some 0 \<and>
   count_list (setup_events 4096 @
       [GlfwGetKey 4096 GLFW_KEY_ESCAPE, GlfwWindowShouldClose 4096, Alive_false,
        GlfwDestroyWindow 4096]) GlfwTerminate = 0 \<and>
   \<not> shutdown_once_after_destroy (setup_events 4096 @
       [GlfwGetKey 4096 GLFW_KEY_ESCAPE, GlfwWindowShouldClose 4096, Alive_false,
        GlfwDestroyWindow 4096]) \<and>
   trace_of (main env_no_glew True) =
     Some (butlast (setup_events 4096) @
       [Stderr (''FAILED TO INITIALIZE GLEW!'' @ [CHR 0x0A])]) \<and>
   status_of (main env_no_glew True) = Some (- 1) \<and>
   count_list (butlast (setup_events 4096) @
       [Stderr (''FAILED TO INITIALIZE GLEW!'' @ [CHR 0x0A])]) GlfwTerminate = 0 \<and>
   \<not> shutdown_once_after_destroy (butlast (setup_events 4096) @
       [Stderr (''FAILED TO INITIALIZE GLEW!'' @ [CHR 0x0A])]) \<and>
   trace_of (main env_no_window True) =
     Some [GlfwInit,
       GlfwWindowHint GLFW_CONTEXT_VERSION_MAJOR 3,
       GlfwWindowHint GLFW_CONTEXT_VERSION_MINOR 3,
       GlfwWindowHint GLFW_OPENGL_FORWARD_COMPAT GL_TRUE,
       GlfwWindowHint GLFW_OPENGL_PROFILE GLFW_OPENGL_CORE_PROFILE,
       GlfwCreateWindow 1280 720 ''huskyTech2'',
       Stderr (''FAILED TO OPEN GLFW WINDOW!'' @ [CHR 0x0A]),
       GlfwTerminate]"
proof -
  have "main (env_close 1) True =
     Some (0, \<lparr>window = 4096, alive = False, glewExperimental = True, polls = 1,
       events = setup_events 4096 @ concat (replicate (1 - 1) (frame_events 4096)) @
         [GlfwGetKey 4096 GLFW_KEY_ESCAPE, GlfwWindowShouldClose 4096, Alive_false,
          GlfwDestroyWindow 4096]\<rparr>)"
    by (rule main_close) simp
  then have normal: "trace_of (main (env_close 1) True) =
     Some (setup_events 4096 @
       [GlfwGetKey 4096 GLFW_KEY_ESCAPE, GlfwWindowShouldClose 4096, Alive_false,
        GlfwDestroyWindow 4096])"
    "status_of (main (env_close 1) True) = Some 0"
    by (simp_all add: trace_of_def status_of_def)
  have loader: "trace_of (main env_no_glew True) =
     Some (butlast (setup_events 4096) @
       [Stderr (''FAILED TO INITIALIZE GLEW!'' @ [CHR 0x0A])])"
    "status_of (main env_no_glew True) = Some (- 1)"
    by (simp_all add: main_glewInit_failed env_no_glew_def NULL_def GLEW_OK_def
        trace_of_def status_of_def setup_events_def)
  have win: "trace_of (main env_no_window True) =
     Some [GlfwInit,
       GlfwWindowHint GLFW_CONTEXT_VERSION_MAJOR 3,
       GlfwWindowHint GLFW_CONTEXT_VERSION_MINOR 3,
       GlfwWindowHint GLFW_OPENGL_FORWARD_COMPAT GL_TRUE,
       GlfwWindowHint GLFW_OPENGL_PROFILE GLFW_OPENGL_CORE_PROFILE,
       GlfwCreateWindow 1280 720 ''huskyTech2'',
       Stderr (''FAILED TO OPEN GLFW WINDOW!'' @ [CHR 0x0A]),
       GlfwTerminate]"
    by (simp add: main_window_failed env_no_window_def trace_of_def)
  have none: "count_list (setup_events 4096 @
       [GlfwGetKey 4096 GLFW_KEY_ESCAPE, GlfwWindowShouldClose 4096, Alive_false,
        GlfwDestroyWindow 4096]) GlfwTerminate = 0"
    "count_list (butlast (setup_events 4096) @
       [Stderr (''FAILED TO INITIALIZE GLEW!'' @ [CHR 0x0A])]) GlfwTerminate = 0"
    by (simp_all add: setup_events_def)
  then have "\<not> shutdown_once_after_destroy (setup_events 4096 @
       [GlfwGetKey 4096 GLFW_KEY_ESCAPE, GlfwWindowShouldClose 4096, Alive_false,
        GlfwDestroyWindow 4096])"
    "\<not> shutdown_once_after_destroy (butlast (setup_events 4096) @
       [Stderr (''FAILED TO INITIALIZE GLEW!'' @ [CHR 0x0A])])"
    by (simp_all add: shutdown_once_after_destroy_def)
  with normal loader win none show ?thesis
    by (intro conjI)
qed

end
